theory Spec2Isabelle
  imports Main "HOL-Library.Word" "HOL-Library.Signed_Division"
begin

section \<open>The environment of the handlers: net/http, fmt and time\<close>

text \<open>
  The two handlers of package cerberus act on three things they do not own: the
  response writer \<^verbatim>\<open>w\<close>, the rate limiter and the downstream handler
  \<^verbatim>\<open>next\<close>. The response writer is modelled as a record of what an HTTP
  client can observe, with the operations of Go's \<^verbatim>\<open>http.ResponseWriter\<close>; the
  two collaborators are functions over a state \<open>'s\<close> the handlers never inspect.
\<close>

subsection \<open>Header maps\<close>

text \<open>
  \<^verbatim>\<open>http.Header\<close> is \<^verbatim>\<open>map[string][]string\<close>. \<^verbatim>\<open>Set\<close> and \<^verbatim>\<open>Get\<close>
  address an entry by the canonical form of the key
  (\<^verbatim>\<open>textproto.CanonicalMIMEHeaderKey\<close>): a key made of header token bytes only gets
  an upper-case letter first and after every hyphen and lower-case letters elsewhere; any
  other key is used as it is.
\<close>

type_synonym Header = "string \<rightharpoonup> string list"

definition lower_letters :: string where
  "lower_letters = ''abcdefghijklmnopqrstuvwxyz''"

definition upper_letters :: string where
  "upper_letters = ''ABCDEFGHIJKLMNOPQRSTUVWXYZ''"

definition toUpper :: "char \<Rightarrow> char" where
  "toUpper c = (case map_of (zip lower_letters upper_letters) c of Some u \<Rightarrow> u | None \<Rightarrow> c)"

definition toLower :: "char \<Rightarrow> char" where
  "toLower c = (case map_of (zip upper_letters lower_letters) c of Some l \<Rightarrow> l | None \<Rightarrow> c)"

definition validHeaderFieldByte :: "char \<Rightarrow> bool" where
  "validHeaderFieldByte c =
     (c \<in> set (lower_letters @ upper_letters @ ''0123456789'' @
        [CHR ''!'', CHR ''#'', CHR ''$'', CHR ''%'', CHR ''&'', CHR 0x27, CHR ''*'', CHR ''+'',
         CHR ''-'', CHR ''.'', CHR ''^'', CHR ''_'', CHR 0x60, CHR ''|'', CHR ''~'']))"

fun canonicalMIMEHeaderKey :: "bool \<Rightarrow> string \<Rightarrow> string" where
  "canonicalMIMEHeaderKey upper [] = []"
| "canonicalMIMEHeaderKey upper (c # cs) =
     (let c' = (if upper then toUpper c else toLower c)
      in c' # canonicalMIMEHeaderKey (c' = CHR ''-'') cs)"

definition CanonicalMIMEHeaderKey :: "string \<Rightarrow> string" where
  "CanonicalMIMEHeaderKey s =
     (if list_all validHeaderFieldByte s then canonicalMIMEHeaderKey True s else s)"

definition Header_Set :: "string \<Rightarrow> string \<Rightarrow> Header \<Rightarrow> Header" where
  "Header_Set key val h = h(CanonicalMIMEHeaderKey key \<mapsto> [val])"

definition Header_Get :: "string \<Rightarrow> Header \<Rightarrow> string" where
  "Header_Get key h =
     (case h (CanonicalMIMEHeaderKey key) of
        None \<Rightarrow> ''''
      | Some [] \<Rightarrow> ''''
      | Some (v # vs) \<Rightarrow> v)"

subsection \<open>The response writer\<close>

text \<open>
  \<open>HeaderMap\<close> is the live map \<^verbatim>\<open>w.Header()\<close> returns. \<open>committed\<close> is
  \<open>None\<close> until the status line is sent; the first \<^verbatim>\<open>WriteHeader(code)\<close> sends
  \<open>code\<close> together with the headers the map holds at that moment, and every later
  \<^verbatim>\<open>WriteHeader\<close> is ignored, as are later changes of the map: \<open>committed\<close> is
  what the client receives. \<open>Body\<close> holds the bytes written. (net/http refuses a
  code outside 100..999 with a panic; the handlers pass the constants 500 and 429 only.)
\<close>

record ResponseWriter =
  HeaderMap :: Header
  committed :: "(nat \<times> Header) option"
  Body :: string

definition StatusInternalServerError :: nat where
  "StatusInternalServerError = 500"

definition StatusTooManyRequests :: nat where
  "StatusTooManyRequests = 429"

definition rw_WriteHeader :: "nat \<Rightarrow> ResponseWriter \<Rightarrow> ResponseWriter" where
  "rw_WriteHeader code w =
     (case committed w of
        Some c \<Rightarrow> w
      | None \<Rightarrow> w\<lparr>committed := Some (code, HeaderMap w)\<rparr>)"

definition rw_Header_Set :: "string \<Rightarrow> string \<Rightarrow> ResponseWriter \<Rightarrow> ResponseWriter" where
  "rw_Header_Set key val w = w\<lparr>HeaderMap := Header_Set key val (HeaderMap w)\<rparr>"

subsection \<open>Numbers and their decimal rendering\<close>

text \<open>
  \<^verbatim>\<open>time.Duration\<close> is an \<^verbatim>\<open>int64\<close> count of nanoseconds, and
  \<^verbatim>\<open>Milliseconds\<close> is \<^verbatim>\<open>int64(d) / 1e6\<close>: Go's integer division, which truncates
  towards zero (\<open>sdiv\<close> on \<open>int\<close>). Go's \<^verbatim>\<open>int\<close> is a signed machine integer of
  32 or 64 bits; its width is the type parameter \<open>'w\<close>.
\<close>

type_synonym Duration = "64 word"

definition Second :: Duration where
  "Second = 1000000000"

definition Milliseconds :: "Duration \<Rightarrow> 64 word" where
  "Milliseconds d = word_of_int (sint d sdiv 1000000)"

text \<open>
  \<^verbatim>\<open>fmt.Sprintf("%d", x)\<close> for a signed integer: the decimal digits of the magnitude,
  most significant first, after a minus sign when \<open>x\<close> is negative.
\<close>

fun digits :: "nat \<Rightarrow> string" where
  "digits u =
     (if u < 10 then [''0123456789'' ! u]
      else digits (u div 10) @ [''0123456789'' ! (u mod 10)])"

definition fmt_d :: "int \<Rightarrow> string" where
  "fmt_d x = (if x < 0 then CHR ''-'' # digits (nat (- x)) else digits (nat x))"

definition Sprintf_d :: "'a::len word \<Rightarrow> string" where
  "Sprintf_d x = fmt_d (sint x)"

subsection \<open>The rate limiter and the downstream handler\<close>

text \<open>
  A rate limiter is what implements the interface: one function for each method, from
  the request and the collaborators' state to the results and the new state.
  \<^verbatim>\<open>AdvancedRateLimiter\<close> embeds \<^verbatim>\<open>RateLimiter\<close>, and the record extends it. A Go
  \<^verbatim>\<open>error\<close> is \<open>None\<close> when it is \<^verbatim>\<open>nil\<close>. The downstream handler may do
  anything to the response writer and to the state. The handlers neither recover from a
  panic of a collaborator nor bound its time: a collaborator is taken to return.
\<close>

datatype error = Errorf string

record ('r, 's) RateLimiter =
  IsAllowed :: "'r \<Rightarrow> 's \<Rightarrow> (bool \<times> error option) \<times> 's"

record (overloaded) ('w::len) RateLimitData =
  Remaining :: "'w word"
  Limit :: "'w word"
  RetryAfter :: Duration

record (overloaded) ('r, 's, 'w::len) AdvancedRateLimiter = "('r, 's) RateLimiter" +
  GetRateLimitData :: "'r \<Rightarrow> 's \<Rightarrow> 'w RateLimitData \<times> 's"

type_synonym ('r, 's) Handler = "'r \<Rightarrow> ResponseWriter \<times> 's \<Rightarrow> ResponseWriter \<times> 's"

subsection \<open>One request being served\<close>

text \<open>
  The state of one exchange: the response writer, the state of the collaborators, and the
  record of what the gating handler itself has done so far, in order. The record plays
  the part of the recording test doubles of the repository's tests; the collaborators
  cannot see it.
\<close>

datatype 'r event =
    Ev_IsAllowed 'r
  | Ev_GetRateLimitData 'r
  | Ev_Header_Set string string
  | Ev_WriteHeader nat
  | Ev_ServeHTTP ResponseWriter 'r

record ('r, 's) exchange =
  rw :: ResponseWriter
  ext :: 's
  trace :: "'r event list"

definition call_IsAllowed ::
  "('r, 's, 'z) RateLimiter_scheme \<Rightarrow> 'r \<Rightarrow> ('r, 's) exchange
     \<Rightarrow> (bool \<times> error option) \<times> ('r, 's) exchange" where
  "call_IsAllowed rateLimiter r x =
     (let (res, s') = IsAllowed rateLimiter r (ext x)
      in (res, x\<lparr>ext := s', trace := trace x @ [Ev_IsAllowed r]\<rparr>))"

definition call_GetRateLimitData ::
  "('r, 's, 'w::len, 'z) AdvancedRateLimiter_scheme \<Rightarrow> 'r \<Rightarrow> ('r, 's) exchange
     \<Rightarrow> 'w RateLimitData \<times> ('r, 's) exchange" where
  "call_GetRateLimitData rateLimiter r x =
     (let (data, s') = GetRateLimitData rateLimiter r (ext x)
      in (data, x\<lparr>ext := s', trace := trace x @ [Ev_GetRateLimitData r]\<rparr>))"

definition WriteHeader :: "nat \<Rightarrow> ('r, 's) exchange \<Rightarrow> ('r, 's) exchange" where
  "WriteHeader code x =
     x\<lparr>rw := rw_WriteHeader code (rw x), trace := trace x @ [Ev_WriteHeader code]\<rparr>"

definition Set_Header :: "string \<Rightarrow> string \<Rightarrow> ('r, 's) exchange \<Rightarrow> ('r, 's) exchange" where
  "Set_Header key val x =
     x\<lparr>rw := rw_Header_Set key val (rw x), trace := trace x @ [Ev_Header_Set key val]\<rparr>"

definition ServeHTTP :: "('r, 's) Handler \<Rightarrow> 'r \<Rightarrow> ('r, 's) exchange \<Rightarrow> ('r, 's) exchange" where
  "ServeHTTP next r x =
     (let (w', s') = next r (rw x, ext x)
      in x\<lparr>rw := w', ext := s', trace := trace x @ [Ev_ServeHTTP (rw x) r]\<rparr>)"

section \<open>The gating handlers\<close>

text \<open>\<^verbatim>\<open>Middleware\<close> of middleware.go.\<close>

definition Middleware ::
  "('r, 's, 'z) RateLimiter_scheme \<Rightarrow> ('r, 's) Handler \<Rightarrow> 'r \<Rightarrow> ('r, 's) exchange
     \<Rightarrow> ('r, 's) exchange" where
  "Middleware rateLimiter next r x =
     (let ((isAllowed, err), x1) = call_IsAllowed rateLimiter r x
      in if err \<noteq> None then WriteHeader StatusInternalServerError x1
         else if \<not> isAllowed then WriteHeader StatusTooManyRequests x1
         else ServeHTTP next r x1)"

text \<open>\<^verbatim>\<open>AdvancedMiddleware\<close> of middleware_advanced.go.\<close>

definition AdvancedMiddleware ::
  "('r, 's, 'w::len, 'z) AdvancedRateLimiter_scheme \<Rightarrow> ('r, 's) Handler \<Rightarrow> 'r
     \<Rightarrow> ('r, 's) exchange \<Rightarrow> ('r, 's) exchange" where
  "AdvancedMiddleware rateLimiter next r x =
     (let ((isAllowed, err), x1) = call_IsAllowed rateLimiter r x
      in if err \<noteq> None then WriteHeader StatusInternalServerError x1
         else
           let (data, x2) = call_GetRateLimitData rateLimiter r x1
           in if \<not> isAllowed then
                WriteHeader StatusTooManyRequests
                  (Set_Header ''X-RateLimit-Retry-After''
                     (Sprintf_d (Milliseconds (RetryAfter data))) x2)
              else
                ServeHTTP next r
                  (Set_Header ''X-RateLimit-Remaining'' (Sprintf_d (Remaining data))
                     (Set_Header ''X-RateLimit-Limit'' (Sprintf_d (Limit data)) x2)))"

section \<open>Observing a run\<close>

text \<open>What a handler has done between the exchange \<open>x\<close> it was entered with and \<open>x'\<close>.\<close>

definition performed :: "('r, 's) exchange \<Rightarrow> ('r, 's) exchange \<Rightarrow> 'r event list" where
  "performed x x' = drop (length (trace x)) (trace x')"

fun is_ServeHTTP :: "'r event \<Rightarrow> bool" where
  "is_ServeHTTP (Ev_ServeHTTP w r) = True"
| "is_ServeHTTP e = False"

fun is_GetRateLimitData :: "'r event \<Rightarrow> bool" where
  "is_GetRateLimitData (Ev_GetRateLimitData r) = True"
| "is_GetRateLimitData e = False"

definition calls_ServeHTTP :: "'r event list \<Rightarrow> nat" where
  "calls_ServeHTTP evs = length (filter is_ServeHTTP evs)"

definition calls_GetRateLimitData :: "'r event list \<Rightarrow> nat" where
  "calls_GetRateLimitData evs = length (filter is_GetRateLimitData evs)"

text \<open>The headers the handler has set and the status codes it has written, in order.\<close>

fun headers_set :: "'r event list \<Rightarrow> (string \<times> string) list" where
  "headers_set [] = []"
| "headers_set (Ev_Header_Set key val # evs) = (key, val) # headers_set evs"
| "headers_set (e # evs) = headers_set evs"

fun statuses_written :: "'r event list \<Rightarrow> nat list" where
  "statuses_written [] = []"
| "statuses_written (Ev_WriteHeader code # evs) = code # statuses_written evs"
| "statuses_written (e # evs) = statuses_written evs"



subsection \<open>Reading a decimal string\<close>

text \<open>
  What a client reads from a header value that is a base-10 integer: an optional minus
  sign, then decimal digits only, each digit counting ten times the one after it.
\<close>

definition digit_value :: "char \<Rightarrow> nat" where
  "digit_value c = of_char c - 48"

definition decimal_value :: "string \<Rightarrow> nat" where
  "decimal_value s = foldl (\<lambda>a c. 10 * a + digit_value c) 0 s"

definition is_decimal :: "string \<Rightarrow> bool" where
  "is_decimal s = (s \<noteq> [] \<and> set s \<subseteq> set ''0123456789'')"

definition is_signed_decimal :: "string \<Rightarrow> bool" where
  "is_signed_decimal s =
     (if s \<noteq> [] \<and> hd s = CHR ''-'' then is_decimal (tl s) else is_decimal s)"

definition int_of_decimal :: "string \<Rightarrow> int" where
  "int_of_decimal s =
     (if s \<noteq> [] \<and> hd s = CHR ''-'' then - int (decimal_value (tl s))
      else int (decimal_value s))"

subsection \<open>The test doubles of the repository's tests\<close>

text \<open>
  \<^verbatim>\<open>MockRateLimiter\<close> and \<^verbatim>\<open>MockAdvancedRateLimiter\<close> answer with the functions
  they are built from; the tests' downstream handler writes status 200; the tests serve
  \<^verbatim>\<open>httptest.NewRequest(http.MethodGet, "/api", nil)\<close> into
  \<^verbatim>\<open>httptest.NewRecorder()\<close>.
\<close>

definition MockRateLimiter :: "('r \<Rightarrow> bool \<times> error option) \<Rightarrow> ('r, 's) RateLimiter" where
  "MockRateLimiter IsAllowedFunction = \<lparr>IsAllowed = \<lambda>r s. (IsAllowedFunction r, s)\<rparr>"

definition MockAdvancedRateLimiter ::
  "('r \<Rightarrow> bool \<times> error option) \<Rightarrow> ('r \<Rightarrow> 'w::len RateLimitData)
     \<Rightarrow> ('r, 's, 'w) AdvancedRateLimiter" where
  "MockAdvancedRateLimiter IsAllowedFunc GetRateLimitDataFunc =
     \<lparr>IsAllowed = \<lambda>r s. (IsAllowedFunc r, s),
      GetRateLimitData = \<lambda>r s. (GetRateLimitDataFunc r, s)\<rparr>"

definition StatusOK :: nat where
  "StatusOK = 200"

definition handler :: "('r, 's) Handler" where
  "handler r = (\<lambda>(w, s). (rw_WriteHeader StatusOK w, s))"

record Request =
  Method :: string
  Target :: string

definition req :: Request where
  "req = \<lparr>Method = ''GET'', Target = ''/api''\<rparr>"

definition NewRecorder :: ResponseWriter where
  "NewRecorder = \<lparr>HeaderMap = Map.empty, committed = None, Body = []\<rparr>"

definition rr :: "(Request, unit) exchange" where
  "rr = \<lparr>rw = NewRecorder, ext = (), trace = []\<rparr>"

text \<open>The limiters of the three tests of middleware_test.go.\<close>

definition rate_limiter_error :: error where
  "rate_limiter_error = Errorf ''rate limiter error''"

definition allowing :: "(Request, unit) RateLimiter" where
  "allowing = MockRateLimiter (\<lambda>r. (True, None))"

definition blocking :: "(Request, unit) RateLimiter" where
  "blocking = MockRateLimiter (\<lambda>r. (False, None))"

definition failing :: "(Request, unit) RateLimiter" where
  "failing = MockRateLimiter (\<lambda>r. (False, Some rate_limiter_error))"

text \<open>The limiters of the tests of middleware_advanced_test.go.\<close>

definition advanced_allowing :: "(Request, unit, 64) AdvancedRateLimiter" where
  "advanced_allowing =
     MockAdvancedRateLimiter (\<lambda>r. (True, None))
       (\<lambda>r. \<lparr>Remaining = 99, Limit = 100, RetryAfter = 0\<rparr>)"

definition advanced_blocking :: "(Request, unit, 64) AdvancedRateLimiter" where
  "advanced_blocking =
     MockAdvancedRateLimiter (\<lambda>r. (False, None))
       (\<lambda>r. \<lparr>Remaining = 0, Limit = 100, RetryAfter = Second\<rparr>)"

definition advanced_failing :: "(Request, unit, 64) AdvancedRateLimiter" where
  "advanced_failing =
     MockAdvancedRateLimiter (\<lambda>r. (False, Some rate_limiter_error))
       (\<lambda>r. \<lparr>Remaining = 0, Limit = 0, RetryAfter = 0\<rparr>)"


definition advanced_blocking_with :: "Duration \<Rightarrow> (Request, unit, 64) AdvancedRateLimiter" where
  "advanced_blocking_with d =
     MockAdvancedRateLimiter (\<lambda>r. (False, None))
       (\<lambda>r. \<lparr>Remaining = 0, Limit = 100, RetryAfter = d\<rparr>)"

text \<open>
  A double that counts: its state is the number of calls of \<^verbatim>\<open>IsAllowed\<close> and the
  number of calls of \<^verbatim>\<open>GetRateLimitData\<close> it has answered.
\<close>

definition counting :: "bool \<times> error option \<Rightarrow> (Request, nat \<times> nat, 64) AdvancedRateLimiter" where
  "counting answer =
     \<lparr>IsAllowed = \<lambda>r (i, g). (answer, (Suc i, g)),
      GetRateLimitData =
        \<lambda>r (i, g). (\<lparr>Remaining = 99, Limit = 100, RetryAfter = Second\<rparr>, (i, Suc g))\<rparr>"

definition rr_counting :: "(Request, nat \<times> nat) exchange" where
  "rr_counting = \<lparr>rw = NewRecorder, ext = (0, 0), trace = []\<rparr>"

declare digits.simps [simp del]

lemmas mock_defs = MockRateLimiter_def MockAdvancedRateLimiter_def

section \<open>The branches of the handlers\<close>

lemma Middleware_failure:
  assumes "IsAllowed rateLimiter r (ext x) = ((a, Some e), s1)"
  shows "Middleware rateLimiter next r x =
           \<lparr>rw = rw_WriteHeader 500 (rw x), ext = s1,
            trace = trace x @ [Ev_IsAllowed r, Ev_WriteHeader 500]\<rparr>"
  using assms
  by (simp add: Middleware_def call_IsAllowed_def WriteHeader_def StatusInternalServerError_def)

lemma Middleware_deny:
  assumes "IsAllowed rateLimiter r (ext x) = ((False, None), s1)"
  shows "Middleware rateLimiter next r x =
           \<lparr>rw = rw_WriteHeader 429 (rw x), ext = s1,
            trace = trace x @ [Ev_IsAllowed r, Ev_WriteHeader 429]\<rparr>"
  using assms
  by (simp add: Middleware_def call_IsAllowed_def WriteHeader_def StatusTooManyRequests_def)

lemma Middleware_allow:
  assumes "IsAllowed rateLimiter r (ext x) = ((True, None), s1)"
  shows "Middleware rateLimiter next r x =
           \<lparr>rw = fst (next r (rw x, s1)), ext = snd (next r (rw x, s1)),
            trace = trace x @ [Ev_IsAllowed r, Ev_ServeHTTP (rw x) r]\<rparr>"
  using assms
  by (simp add: Middleware_def call_IsAllowed_def ServeHTTP_def split: prod.splits)

lemma AdvancedMiddleware_failure:
  assumes "IsAllowed rateLimiter r (ext x) = ((a, Some e), s1)"
  shows "AdvancedMiddleware rateLimiter next r x =
           \<lparr>rw = rw_WriteHeader 500 (rw x), ext = s1,
            trace = trace x @ [Ev_IsAllowed r, Ev_WriteHeader 500]\<rparr>"
  using assms
  by (simp add: AdvancedMiddleware_def call_IsAllowed_def WriteHeader_def
      StatusInternalServerError_def)

lemma AdvancedMiddleware_deny:
  assumes "IsAllowed rateLimiter r (ext x) = ((False, None), s1)"
    and "GetRateLimitData rateLimiter r s1 = (data, s2)"
  shows "AdvancedMiddleware rateLimiter next r x =
           \<lparr>rw = rw_WriteHeader 429
                  (rw_Header_Set ''X-RateLimit-Retry-After''
                     (Sprintf_d (Milliseconds (RetryAfter data))) (rw x)),
            ext = s2,
            trace = trace x @
              [Ev_IsAllowed r, Ev_GetRateLimitData r,
               Ev_Header_Set ''X-RateLimit-Retry-After''
                 (Sprintf_d (Milliseconds (RetryAfter data))),
               Ev_WriteHeader 429]\<rparr>"
  using assms
  by (simp add: AdvancedMiddleware_def call_IsAllowed_def call_GetRateLimitData_def
      WriteHeader_def Set_Header_def StatusTooManyRequests_def)

lemma AdvancedMiddleware_allow:
  assumes "IsAllowed rateLimiter r (ext x) = ((True, None), s1)"
    and "GetRateLimitData rateLimiter r s1 = (data, s2)"
    and "w = rw_Header_Set ''X-RateLimit-Remaining'' (Sprintf_d (Remaining data))
               (rw_Header_Set ''X-RateLimit-Limit'' (Sprintf_d (Limit data)) (rw x))"
  shows "AdvancedMiddleware rateLimiter next r x =
           \<lparr>rw = fst (next r (w, s2)), ext = snd (next r (w, s2)),
            trace = trace x @
              [Ev_IsAllowed r, Ev_GetRateLimitData r,
               Ev_Header_Set ''X-RateLimit-Limit'' (Sprintf_d (Limit data)),
               Ev_Header_Set ''X-RateLimit-Remaining'' (Sprintf_d (Remaining data)),
               Ev_ServeHTTP w r]\<rparr>"
  using assms
  by (simp add: AdvancedMiddleware_def call_IsAllowed_def call_GetRateLimitData_def
      ServeHTTP_def Set_Header_def split: prod.splits)

lemma performed_append:
  "performed x \<lparr>rw = w, ext = s, trace = trace x @ evs\<rparr> = evs"
  by (simp add: performed_def)

lemma committed_WriteHeader:
  "committed (rw_WriteHeader code w) =
     (case committed w of None \<Rightarrow> Some (code, HeaderMap w) | Some c \<Rightarrow> Some c)"
  by (simp add: rw_WriteHeader_def split: option.splits)

lemma HeaderMap_WriteHeader: "HeaderMap (rw_WriteHeader code w) = HeaderMap w"
  by (simp add: rw_WriteHeader_def split: option.splits)

lemma Body_WriteHeader: "Body (rw_WriteHeader code w) = Body w"
  by (simp add: rw_WriteHeader_def split: option.splits)

section \<open>Header keys and decimal strings\<close>

lemma key_Retry_After:
  "CanonicalMIMEHeaderKey ''X-RateLimit-Retry-After'' = ''X-Ratelimit-Retry-After''"
  by code_simp

lemma key_Limit: "CanonicalMIMEHeaderKey ''X-RateLimit-Limit'' = ''X-Ratelimit-Limit''"
  by code_simp

lemma key_Remaining:
  "CanonicalMIMEHeaderKey ''X-RateLimit-Remaining'' = ''X-Ratelimit-Remaining''"
  by code_simp

lemmas header_defs =
  rw_Header_Set_def Header_Set_def Header_Get_def key_Retry_After key_Limit key_Remaining

lemma digit_value_nth: "k < 10 \<Longrightarrow> digit_value (''0123456789'' ! k) = k"
proof -
  assume "k < 10"
  then have "k < Suc (Suc (Suc (Suc (Suc (Suc (Suc (Suc (Suc (Suc 0)))))))))"
    by simp
  then have "k = 0 \<or> k = 1 \<or> k = 2 \<or> k = 3 \<or> k = 4 \<or> k = 5 \<or> k = 6 \<or> k = 7
      \<or> k = 8 \<or> k = 9"
    unfolding less_Suc_eq by auto
  then show ?thesis
    by (auto simp: digit_value_def)
qed

lemma digit_nth_mem: "k < 10 \<Longrightarrow> ''0123456789'' ! k \<in> set ''0123456789''"
  by (rule nth_mem) simp

lemma digits_nonempty: "digits u \<noteq> []"
  by (subst digits.simps) simp

lemma set_digits: "set (digits u) \<subseteq> set ''0123456789''"
proof (induction u rule: digits.induct)
  case (1 u)
  show ?case
  proof (cases "u < 10")
    case True
    then show ?thesis
      using digit_nth_mem [of u] by (subst digits.simps) simp
  next
    case False
    then show ?thesis
      using 1 digit_nth_mem [of "u mod 10"] by (subst digits.simps) simp
  qed
qed

lemma is_decimal_digits: "is_decimal (digits u)"
  using set_digits [of u] digits_nonempty [of u] by (simp add: is_decimal_def)

lemma decimal_value_digits: "decimal_value (digits u) = u"
proof (induction u rule: digits.induct)
  case (1 u)
  show ?case
  proof (cases "u < 10")
    case True
    then show ?thesis
      by (subst digits.simps) (simp add: decimal_value_def digit_value_nth)
  next
    case False
    with 1 have "decimal_value (digits (u div 10)) = u div 10" by simp
    with False show ?thesis
      by (subst digits.simps) (simp add: decimal_value_def digit_value_nth)
  qed
qed

lemma hd_digits: "hd (digits u) \<noteq> CHR ''-''"
proof -
  have "hd (digits u) \<in> set (digits u)"
    using digits_nonempty by (rule hd_in_set)
  with set_digits [of u] have "hd (digits u) \<in> set ''0123456789''" by blast
  then show ?thesis by auto
qed

lemma fmt_d_decimal: "is_signed_decimal (fmt_d n) \<and> int_of_decimal (fmt_d n) = n"
  using hd_digits [of "nat n"] digits_nonempty [of "nat n"]
  by (simp add: fmt_d_def is_signed_decimal_def int_of_decimal_def is_decimal_digits
      decimal_value_digits)

text \<open>\<^verbatim>\<open>Milliseconds\<close> loses nothing to the 64 bits: the quotient fits.\<close>

lemma sdiv_million:
  fixes a :: int
  shows "a sdiv 1000000 = (if a < 0 then - ((- a) div 1000000) else a div 1000000)"
  by (simp add: signed_divide_int_def sgn_if)

lemma div_million_bounds:
  fixes b :: int
  assumes "0 \<le> b"
  shows "0 \<le> b div 1000000 \<and> b div 1000000 \<le> b"
proof
  show "0 \<le> b div 1000000"
    using assms by (simp add: pos_imp_zdiv_nonneg_iff)
  have "b div 1000000 * 1 \<le> b div 1000000 * 1000000"
    using \<open>0 \<le> b div 1000000\<close> by (intro mult_left_mono) simp_all
  also have "\<dots> \<le> b"
    using assms by (simp add: minus_mod_eq_div_mult [symmetric])
  finally show "b div 1000000 \<le> b" by simp
qed

lemma sint_Milliseconds: "sint (Milliseconds d) = sint d sdiv 1000000"
proof -
  let ?a = "sint d"
  let ?q = "?a sdiv 1000000"
  have r: "- (2 ^ 63) \<le> ?a" "?a < 2 ^ 63"
    using sint_ge [of d] sint_lt [of d] by simp_all
  have "- (2 ^ 63) \<le> ?q \<and> ?q < 2 ^ 63"
  proof (cases "?a < 0")
    case True
    then show ?thesis
      using r div_million_bounds [of "- ?a"] by (simp add: sdiv_million)
  next
    case False
    then show ?thesis
      using r div_million_bounds [of "?a"] by (simp add: sdiv_million)
  qed
  then have "signed_take_bit 63 ?q = ?q"
    by (intro signed_take_bit_int_eq_self) simp_all
  then show ?thesis
    by (simp add: Milliseconds_def sint_sbintrunc')
qed

lemma Milliseconds_truncates:
  "sint (Milliseconds d) = sgn (sint d) * (\<bar>sint d\<bar> div 1000000)"
  by (simp add: sint_Milliseconds signed_divide_int_def)



section \<open>The tests' recorder and numbers, evaluated\<close>

lemma rr_simps:
  "rw rr = NewRecorder" "ext rr = ()" "trace rr = []"
  "HeaderMap NewRecorder = Map.empty" "committed NewRecorder = None" "Body NewRecorder = []"
  by (simp_all add: rr_def NewRecorder_def)

lemma handler_NewRecorder:
  "handler r (NewRecorder, s) =
     (\<lparr>HeaderMap = Map.empty, committed = Some (200, Map.empty), Body = []\<rparr>, s)"
  by (simp add: handler_def NewRecorder_def rw_WriteHeader_def StatusOK_def)

lemma WriteHeader_NewRecorder:
  "rw_WriteHeader code NewRecorder =
     \<lparr>HeaderMap = Map.empty, committed = Some (code, Map.empty), Body = []\<rparr>"
  by (simp add: NewRecorder_def rw_WriteHeader_def)

lemma Sprintf_d_examples:
  "Sprintf_d (100 :: 64 word) = ''100''"
  "Sprintf_d (99 :: 64 word) = ''99''"
  "Sprintf_d (Milliseconds Second) = ''1000''"
  "Sprintf_d (Milliseconds (- Second)) = ''-1000''"
  "Sprintf_d (Milliseconds 1999999) = ''1''"
  "Sprintf_d (Milliseconds (- 1999999)) = ''-1''"
  "Sprintf_d (- 1 :: 64 word) = ''-1''"
  "Sprintf_d (5 :: 64 word) = ''5''"
  "Sprintf_d (3 :: 64 word) = ''3''"
  by (simp_all add: Sprintf_d_def Milliseconds_def Second_def fmt_d_def digits.simps)

section \<open>The basic gating handler\<close>

text \<open>
  C1. Whenever \<^verbatim>\<open>IsAllowed\<close> returns \<^verbatim>\<open>(true, nil)\<close>, \<^verbatim>\<open>Middleware\<close> calls the
  downstream handler exactly once, with the request and the response writer as it
  received them; it writes no status and sets no header itself, and the response writer
  and the collaborators' state are left as the downstream handler leaves them.
\<close>

theorem Middleware_allowed_forwards_once:
  assumes "IsAllowed rateLimiter r (ext x) = ((True, None), s1)"
  shows "(let x' = Middleware rateLimiter next r x in
            performed x x' = [Ev_IsAllowed r, Ev_ServeHTTP (rw x) r]
          \<and> calls_ServeHTTP (performed x x') = 1
          \<and> headers_set (performed x x') = []
          \<and> statuses_written (performed x x') = []
          \<and> rw x' = fst (next r (rw x, s1))
          \<and> ext x' = snd (next r (rw x, s1)))"
  by (simp add: Middleware_allow [OF assms] performed_append calls_ServeHTTP_def)

text \<open>
  The first test of middleware_test.go: the limiter allows, the downstream handler
  writes 200, and 200 with no header is what the recorder holds.
\<close>

theorem Middleware_allowed_forwards_once_witness:
  "IsAllowed allowing req (ext rr) = ((True, None), ())
   \<and> performed rr (Middleware allowing handler req rr)
        = [Ev_IsAllowed req, Ev_ServeHTTP NewRecorder req]
   \<and> calls_ServeHTTP (performed rr (Middleware allowing handler req rr)) = 1
   \<and> rw (Middleware allowing handler req rr)
        = \<lparr>HeaderMap = Map.empty, committed = Some (200, Map.empty), Body = []\<rparr>"
proof -
  have h: "IsAllowed allowing req (ext rr) = ((True, None), ())"
    by (simp add: allowing_def mock_defs)
  from Middleware_allowed_forwards_once [OF h, of handler]
  have "performed rr (Middleware allowing handler req rr)
        = [Ev_IsAllowed req, Ev_ServeHTTP NewRecorder req]
   \<and> calls_ServeHTTP (performed rr (Middleware allowing handler req rr)) = 1
   \<and> rw (Middleware allowing handler req rr)
        = \<lparr>HeaderMap = Map.empty, committed = Some (200, Map.empty), Body = []\<rparr>"
    by (simp add: Let_def rr_simps handler_NewRecorder calls_ServeHTTP_def)
  with h show ?thesis by blast
qed

text \<open>
  C2. Whenever \<^verbatim>\<open>IsAllowed\<close> returns \<^verbatim>\<open>(false, nil)\<close>, \<^verbatim>\<open>Middleware\<close> writes status
  429 and does nothing else: the downstream handler is not called, no header is set and
  the body is untouched. A response writer that had sent no status has sent 429 with the
  headers it held on entry.
\<close>

theorem Middleware_denied_429:
  assumes "IsAllowed rateLimiter r (ext x) = ((False, None), s1)"
  shows "(let x' = Middleware rateLimiter next r x in
            performed x x' = [Ev_IsAllowed r, Ev_WriteHeader 429]
          \<and> statuses_written (performed x x') = [429]
          \<and> calls_ServeHTTP (performed x x') = 0
          \<and> headers_set (performed x x') = []
          \<and> committed (rw x') =
              (case committed (rw x) of
                 None \<Rightarrow> Some (429, HeaderMap (rw x))
               | Some c \<Rightarrow> Some c)
          \<and> HeaderMap (rw x') = HeaderMap (rw x)
          \<and> Body (rw x') = Body (rw x)
          \<and> ext x' = s1)"
  by (simp add: Middleware_deny [OF assms] performed_append calls_ServeHTTP_def
      committed_WriteHeader HeaderMap_WriteHeader Body_WriteHeader)

text \<open>The second test of middleware_test.go: the recorder holds 429 and an empty body.\<close>

theorem Middleware_denied_429_witness:
  "IsAllowed blocking req (ext rr) = ((False, None), ())
   \<and> performed rr (Middleware blocking handler req rr) = [Ev_IsAllowed req, Ev_WriteHeader 429]
   \<and> calls_ServeHTTP (performed rr (Middleware blocking handler req rr)) = 0
   \<and> committed (rw (Middleware blocking handler req rr)) = Some (429, Map.empty)
   \<and> HeaderMap (rw (Middleware blocking handler req rr)) = Map.empty
   \<and> Body (rw (Middleware blocking handler req rr)) = []"
proof -
  have h: "IsAllowed blocking req (ext rr) = ((False, None), ())"
    by (simp add: blocking_def mock_defs)
  from Middleware_denied_429 [OF h, of handler]
  have "performed rr (Middleware blocking handler req rr) = [Ev_IsAllowed req, Ev_WriteHeader 429]
   \<and> calls_ServeHTTP (performed rr (Middleware blocking handler req rr)) = 0
   \<and> committed (rw (Middleware blocking handler req rr)) = Some (429, Map.empty)
   \<and> HeaderMap (rw (Middleware blocking handler req rr)) = Map.empty
   \<and> Body (rw (Middleware blocking handler req rr)) = []"
    by (simp add: Let_def rr_simps calls_ServeHTTP_def)
  with h show ?thesis by blast
qed

text \<open>
  C9. \<^verbatim>\<open>Middleware\<close> sets no header in any of its branches. When it denies or fails,
  the header map is the one it was entered with, and so are the headers sent with the
  status; when it allows, it hands the response writer to the downstream handler as it
  received it, and the final response writer is the one the downstream handler leaves.
\<close>

theorem Middleware_sets_no_header:
  assumes "IsAllowed rateLimiter r (ext x) = ((isAllowed, err), s1)"
  shows "(let x' = Middleware rateLimiter next r x in
            headers_set (performed x x') = []
          \<and> (if err = None \<and> isAllowed then
                performed x x' = [Ev_IsAllowed r, Ev_ServeHTTP (rw x) r]
                \<and> rw x' = fst (next r (rw x, s1))
              else
                HeaderMap (rw x') = HeaderMap (rw x)
                \<and> committed (rw x') =
                    (case committed (rw x) of
                       None \<Rightarrow> Some (if err = None then 429 else 500, HeaderMap (rw x))
                     | Some c \<Rightarrow> Some c)))"
proof (cases err)
  case None
  show ?thesis
  proof (cases isAllowed)
    case True
    with None assms have "IsAllowed rateLimiter r (ext x) = ((True, None), s1)" by simp
    from Middleware_allow [OF this] None True show ?thesis
      by (simp add: performed_append)
  next
    case False
    with None assms have "IsAllowed rateLimiter r (ext x) = ((False, None), s1)" by simp
    from Middleware_deny [OF this] None False show ?thesis
      by (simp add: performed_append committed_WriteHeader HeaderMap_WriteHeader)
  qed
next
  case (Some e)
  with assms have "IsAllowed rateLimiter r (ext x) = ((isAllowed, Some e), s1)" by simp
  from Middleware_failure [OF this] Some show ?thesis
    by (simp add: performed_append committed_WriteHeader HeaderMap_WriteHeader)
qed

text \<open>The three tests of middleware_test.go: no header reaches the recorder.\<close>

theorem Middleware_sets_no_header_witness:
  "IsAllowed allowing req (ext rr) = ((True, None), ())
   \<and> IsAllowed blocking req (ext rr) = ((False, None), ())
   \<and> IsAllowed failing req (ext rr) = ((False, Some rate_limiter_error), ())
   \<and> headers_set (performed rr (Middleware allowing handler req rr)) = []
   \<and> rw (Middleware allowing handler req rr) = fst (handler req (NewRecorder, ()))
   \<and> HeaderMap (rw (Middleware allowing handler req rr)) = Map.empty
   \<and> headers_set (performed rr (Middleware blocking handler req rr)) = []
   \<and> HeaderMap (rw (Middleware blocking handler req rr)) = Map.empty
   \<and> committed (rw (Middleware blocking handler req rr)) = Some (429, Map.empty)
   \<and> headers_set (performed rr (Middleware failing handler req rr)) = []
   \<and> HeaderMap (rw (Middleware failing handler req rr)) = Map.empty
   \<and> committed (rw (Middleware failing handler req rr)) = Some (500, Map.empty)"
proof -
  have h1: "IsAllowed allowing req (ext rr) = ((True, None), ())"
    and h2: "IsAllowed blocking req (ext rr) = ((False, None), ())"
    and h3: "IsAllowed failing req (ext rr) = ((False, Some rate_limiter_error), ())"
    by (simp_all add: allowing_def blocking_def failing_def mock_defs)
  from Middleware_sets_no_header [OF h1, of handler]
  have a: "headers_set (performed rr (Middleware allowing handler req rr)) = []
     \<and> rw (Middleware allowing handler req rr) = fst (handler req (NewRecorder, ()))
     \<and> HeaderMap (rw (Middleware allowing handler req rr)) = Map.empty"
    by (simp add: Let_def rr_simps handler_NewRecorder)
  from Middleware_sets_no_header [OF h2, of handler]
  have b: "headers_set (performed rr (Middleware blocking handler req rr)) = []
     \<and> HeaderMap (rw (Middleware blocking handler req rr)) = Map.empty
     \<and> committed (rw (Middleware blocking handler req rr)) = Some (429, Map.empty)"
    by (simp add: Let_def rr_simps)
  from Middleware_sets_no_header [OF h3, of handler]
  have c: "headers_set (performed rr (Middleware failing handler req rr)) = []
     \<and> HeaderMap (rw (Middleware failing handler req rr)) = Map.empty
     \<and> committed (rw (Middleware failing handler req rr)) = Some (500, Map.empty)"
    by (simp add: Let_def rr_simps)
  show ?thesis
    using h1 h2 h3 a b c by blast
qed

section \<open>Failure of the rate limiter, in both handlers\<close>

text \<open>
  C3. Whenever \<^verbatim>\<open>IsAllowed\<close> returns a failure, whatever boolean comes with it, both
  \<^verbatim>\<open>Middleware\<close> and \<^verbatim>\<open>AdvancedMiddleware\<close> write status 500 and do nothing else:
  the downstream handler is not called, \<^verbatim>\<open>GetRateLimitData\<close> is not called, no header
  is set and the body is untouched. A response writer that had sent no status has sent
  500 with the headers it held on entry.
\<close>

theorem failure_500:
  assumes "IsAllowed rateLimiter r (ext x) = ((isAllowed, Some e), s1)"
    and "IsAllowed advanced r (ext x) = ((isAllowed', Some e'), s1')"
  shows "(let x' = Middleware rateLimiter next r x;
              x'' = AdvancedMiddleware advanced next r x in
            performed x x' = [Ev_IsAllowed r, Ev_WriteHeader 500]
          \<and> performed x x'' = [Ev_IsAllowed r, Ev_WriteHeader 500]
          \<and> statuses_written (performed x x') = [500]
          \<and> statuses_written (performed x x'') = [500]
          \<and> calls_ServeHTTP (performed x x') = 0
          \<and> calls_ServeHTTP (performed x x'') = 0
          \<and> calls_GetRateLimitData (performed x x'') = 0
          \<and> headers_set (performed x x') = []
          \<and> headers_set (performed x x'') = []
          \<and> rw x' = rw_WriteHeader 500 (rw x)
          \<and> rw x'' = rw_WriteHeader 500 (rw x)
          \<and> committed (rw_WriteHeader 500 (rw x)) =
              (case committed (rw x) of
                 None \<Rightarrow> Some (500, HeaderMap (rw x))
               | Some c \<Rightarrow> Some c)
          \<and> HeaderMap (rw_WriteHeader 500 (rw x)) = HeaderMap (rw x)
          \<and> Body (rw_WriteHeader 500 (rw x)) = Body (rw x)
          \<and> ext x' = s1
          \<and> ext x'' = s1')"
  by (simp add: Middleware_failure [OF assms(1)] AdvancedMiddleware_failure [OF assms(2)]
      performed_append calls_ServeHTTP_def calls_GetRateLimitData_def committed_WriteHeader
      HeaderMap_WriteHeader Body_WriteHeader)

text \<open>
  The failing limiter of the tests answers \<^verbatim>\<open>(false, err)\<close>; a limiter that answers
  \<^verbatim>\<open>(true, err)\<close> is treated alike.
\<close>

theorem failure_500_witness:
  "IsAllowed failing req (ext rr) = ((False, Some rate_limiter_error), ())
   \<and> IsAllowed
         (MockAdvancedRateLimiter (\<lambda>r. (True, Some rate_limiter_error))
            (\<lambda>r. \<lparr>Remaining = 99 :: 64 word, Limit = 100, RetryAfter = 0\<rparr>))
         req (ext rr)
        = ((True, Some rate_limiter_error), ())
   \<and> performed rr (Middleware failing handler req rr) = [Ev_IsAllowed req, Ev_WriteHeader 500]
   \<and> performed rr
         (AdvancedMiddleware
            (MockAdvancedRateLimiter (\<lambda>r. (True, Some rate_limiter_error))
               (\<lambda>r. \<lparr>Remaining = 99 :: 64 word, Limit = 100, RetryAfter = 0\<rparr>))
            handler req rr)
        = [Ev_IsAllowed req, Ev_WriteHeader 500]
   \<and> rw (Middleware failing handler req rr)
        = \<lparr>HeaderMap = Map.empty, committed = Some (500, Map.empty), Body = []\<rparr>
   \<and> rw (AdvancedMiddleware
            (MockAdvancedRateLimiter (\<lambda>r. (True, Some rate_limiter_error))
               (\<lambda>r. \<lparr>Remaining = 99 :: 64 word, Limit = 100, RetryAfter = 0\<rparr>))
            handler req rr)
        = \<lparr>HeaderMap = Map.empty, committed = Some (500, Map.empty), Body = []\<rparr>"
proof -
  have h1: "IsAllowed failing req (ext rr) = ((False, Some rate_limiter_error), ())"
    by (simp add: failing_def mock_defs)
  have h2: "IsAllowed
         (MockAdvancedRateLimiter (\<lambda>r. (True, Some rate_limiter_error))
            (\<lambda>r. \<lparr>Remaining = 99 :: 64 word, Limit = 100, RetryAfter = 0\<rparr>))
         req (ext rr)
        = ((True, Some rate_limiter_error), ())"
    by (simp add: mock_defs)
  from failure_500 [OF h1 h2, of handler]
  have "performed rr (Middleware failing handler req rr) = [Ev_IsAllowed req, Ev_WriteHeader 500]
   \<and> performed rr
         (AdvancedMiddleware
            (MockAdvancedRateLimiter (\<lambda>r. (True, Some rate_limiter_error))
               (\<lambda>r. \<lparr>Remaining = 99 :: 64 word, Limit = 100, RetryAfter = 0\<rparr>))
            handler req rr)
        = [Ev_IsAllowed req, Ev_WriteHeader 500]
   \<and> rw (Middleware failing handler req rr)
        = \<lparr>HeaderMap = Map.empty, committed = Some (500, Map.empty), Body = []\<rparr>
   \<and> rw (AdvancedMiddleware
            (MockAdvancedRateLimiter (\<lambda>r. (True, Some rate_limiter_error))
               (\<lambda>r. \<lparr>Remaining = 99 :: 64 word, Limit = 100, RetryAfter = 0\<rparr>))
            handler req rr)
        = \<lparr>HeaderMap = Map.empty, committed = Some (500, Map.empty), Body = []\<rparr>"
    by (simp add: Let_def rr_simps WriteHeader_NewRecorder)
  with h1 h2 show ?thesis by blast
qed

section \<open>The extended gating handler\<close>

text \<open>
  C4. \<^verbatim>\<open>AdvancedMiddleware\<close> calls \<^verbatim>\<open>GetRateLimitData\<close> exactly once, for the request
  it serves, when \<^verbatim>\<open>IsAllowed\<close> returns no failure, whether it allows or denies, and
  not at all when \<^verbatim>\<open>IsAllowed\<close> returns a failure. The call is made on the state
  \<^verbatim>\<open>IsAllowed\<close> left, right after it; the state it leaves is the one the handler
  goes on with, and the snapshot it returns is the one rendered into the headers. When
  \<^verbatim>\<open>IsAllowed\<close> fails, the state is left as \<^verbatim>\<open>IsAllowed\<close> left it.
\<close>

theorem GetRateLimitData_once_unless_failure:
  assumes "IsAllowed rateLimiter r (ext x) = ((isAllowed, err), s1)"
    and "GetRateLimitData rateLimiter r s1 = (data, s2)"
  shows "(let x' = AdvancedMiddleware rateLimiter next r x;
              w = rw_Header_Set ''X-RateLimit-Remaining'' (Sprintf_d (Remaining data))
                    (rw_Header_Set ''X-RateLimit-Limit'' (Sprintf_d (Limit data)) (rw x)) in
            calls_GetRateLimitData (performed x x') = (if err = None then 1 else 0)
          \<and> filter is_GetRateLimitData (performed x x') =
              (if err = None then [Ev_GetRateLimitData r] else [])
          \<and> (if err \<noteq> None then
                performed x x' = [Ev_IsAllowed r, Ev_WriteHeader 500]
                \<and> ext x' = s1
              else if \<not> isAllowed then
                take 2 (performed x x') = [Ev_IsAllowed r, Ev_GetRateLimitData r]
                \<and> ext x' = s2
                \<and> headers_set (performed x x') =
                    [(''X-RateLimit-Retry-After'', Sprintf_d (Milliseconds (RetryAfter data)))]
              else
                take 2 (performed x x') = [Ev_IsAllowed r, Ev_GetRateLimitData r]
                \<and> rw x' = fst (next r (w, s2))
                \<and> ext x' = snd (next r (w, s2))
                \<and> headers_set (performed x x') =
                    [(''X-RateLimit-Limit'', Sprintf_d (Limit data)),
                     (''X-RateLimit-Remaining'', Sprintf_d (Remaining data))]))"
proof (cases err)
  case None
  show ?thesis
  proof (cases isAllowed)
    case True
    with None assms have "IsAllowed rateLimiter r (ext x) = ((True, None), s1)" by simp
    from AdvancedMiddleware_allow [OF this assms(2) refl] None True show ?thesis
      by (simp add: performed_append calls_GetRateLimitData_def Let_def)
  next
    case False
    with None assms have "IsAllowed rateLimiter r (ext x) = ((False, None), s1)" by simp
    from AdvancedMiddleware_deny [OF this assms(2)] None False show ?thesis
      by (simp add: performed_append calls_GetRateLimitData_def Let_def)
  qed
next
  case (Some e)
  with assms have "IsAllowed rateLimiter r (ext x) = ((isAllowed, Some e), s1)" by simp
  from AdvancedMiddleware_failure [OF this] Some show ?thesis
    by (simp add: performed_append calls_GetRateLimitData_def Let_def)
qed

text \<open>
  The three limiters of middleware_advanced_test.go: one call, one call, none. The
  counting double, entered with both counts at zero, ends with one call of
  \<^verbatim>\<open>IsAllowed\<close> and with one call of \<^verbatim>\<open>GetRateLimitData\<close> when it allows or
  denies, none when it fails.
\<close>

theorem GetRateLimitData_once_unless_failure_witness:
  "IsAllowed advanced_allowing req (ext rr) = ((True, None), ())
   \<and> GetRateLimitData advanced_allowing req ()
        = (\<lparr>Remaining = 99, Limit = 100, RetryAfter = 0\<rparr>, ())
   \<and> IsAllowed advanced_blocking req (ext rr) = ((False, None), ())
   \<and> GetRateLimitData advanced_blocking req ()
        = (\<lparr>Remaining = 0, Limit = 100, RetryAfter = Second\<rparr>, ())
   \<and> IsAllowed advanced_failing req (ext rr) = ((False, Some rate_limiter_error), ())
   \<and> GetRateLimitData advanced_failing req ()
        = (\<lparr>Remaining = 0, Limit = 0, RetryAfter = 0\<rparr>, ())
   \<and> IsAllowed (counting (True, None)) req (ext rr_counting) = ((True, None), (1, 0))
   \<and> IsAllowed (counting (False, None)) req (ext rr_counting) = ((False, None), (1, 0))
   \<and> IsAllowed (counting (False, Some rate_limiter_error)) req (ext rr_counting)
        = ((False, Some rate_limiter_error), (1, 0))
   \<and> GetRateLimitData (counting (True, None)) req (1, 0)
        = (\<lparr>Remaining = 99, Limit = 100, RetryAfter = Second\<rparr>, (1, 1))
   \<and> GetRateLimitData (counting (False, None)) req (1, 0)
        = (\<lparr>Remaining = 99, Limit = 100, RetryAfter = Second\<rparr>, (1, 1))
   \<and> GetRateLimitData (counting (False, Some rate_limiter_error)) req (1, 0)
        = (\<lparr>Remaining = 99, Limit = 100, RetryAfter = Second\<rparr>, (1, 1))
   \<and> calls_GetRateLimitData (performed rr (AdvancedMiddleware advanced_allowing handler req rr)) = 1
   \<and> calls_GetRateLimitData (performed rr (AdvancedMiddleware advanced_blocking handler req rr)) = 1
   \<and> calls_GetRateLimitData (performed rr (AdvancedMiddleware advanced_failing handler req rr)) = 0
   \<and> ext (AdvancedMiddleware (counting (True, None)) handler req rr_counting) = (1, 1)
   \<and> headers_set (performed rr_counting
          (AdvancedMiddleware (counting (True, None)) handler req rr_counting))
        = [(''X-RateLimit-Limit'', ''100''), (''X-RateLimit-Remaining'', ''99'')]
   \<and> ext (AdvancedMiddleware (counting (False, None)) handler req rr_counting) = (1, 1)
   \<and> headers_set (performed rr_counting
          (AdvancedMiddleware (counting (False, None)) handler req rr_counting))
        = [(''X-RateLimit-Retry-After'', ''1000'')]
   \<and> ext (AdvancedMiddleware (counting (False, Some rate_limiter_error)) handler req rr_counting)
        = (1, 0)
   \<and> headers_set (performed rr_counting
          (AdvancedMiddleware (counting (False, Some rate_limiter_error)) handler req rr_counting))
        = []"
proof -
  have h1: "IsAllowed advanced_allowing req (ext rr) = ((True, None), ())"
    and d1: "GetRateLimitData advanced_allowing req ()
        = (\<lparr>Remaining = 99, Limit = 100, RetryAfter = 0\<rparr>, ())"
    and h2: "IsAllowed advanced_blocking req (ext rr) = ((False, None), ())"
    and d2: "GetRateLimitData advanced_blocking req ()
        = (\<lparr>Remaining = 0, Limit = 100, RetryAfter = Second\<rparr>, ())"
    and h3: "IsAllowed advanced_failing req (ext rr) = ((False, Some rate_limiter_error), ())"
    and d3: "GetRateLimitData advanced_failing req ()
        = (\<lparr>Remaining = 0, Limit = 0, RetryAfter = 0\<rparr>, ())"
    by (simp_all add: advanced_allowing_def advanced_blocking_def advanced_failing_def
        mock_defs)
  have h4: "IsAllowed (counting (True, None)) req (ext rr_counting) = ((True, None), (1, 0))"
    and h5: "IsAllowed (counting (False, None)) req (ext rr_counting)
        = ((False, None), (1, 0))"
    and h6: "IsAllowed (counting (False, Some rate_limiter_error)) req (ext rr_counting)
        = ((False, Some rate_limiter_error), (1, 0))"
    and d4: "GetRateLimitData (counting (True, None)) req (1, 0)
        = (\<lparr>Remaining = 99, Limit = 100, RetryAfter = Second\<rparr>, (1, 1))"
    and d5: "GetRateLimitData (counting (False, None)) req (1, 0)
        = (\<lparr>Remaining = 99, Limit = 100, RetryAfter = Second\<rparr>, (1, 1))"
    and d6: "GetRateLimitData (counting (False, Some rate_limiter_error)) req (1, 0)
        = (\<lparr>Remaining = 99, Limit = 100, RetryAfter = Second\<rparr>, (1, 1))"
    by (simp_all add: counting_def rr_counting_def)
  from GetRateLimitData_once_unless_failure [OF h1 d1, of handler]
  have a: "calls_GetRateLimitData
      (performed rr (AdvancedMiddleware advanced_allowing handler req rr)) = 1"
    by (simp add: Let_def)
  from GetRateLimitData_once_unless_failure [OF h2 d2, of handler]
  have b: "calls_GetRateLimitData
      (performed rr (AdvancedMiddleware advanced_blocking handler req rr)) = 1"
    by (simp add: Let_def)
  from GetRateLimitData_once_unless_failure [OF h3 d3, of handler]
  have c: "calls_GetRateLimitData
      (performed rr (AdvancedMiddleware advanced_failing handler req rr)) = 0"
    by (simp add: Let_def calls_GetRateLimitData_def)
  from GetRateLimitData_once_unless_failure [OF h4 d4, of handler]
  have e: "ext (AdvancedMiddleware (counting (True, None)) handler req rr_counting) = (1, 1)
   \<and> headers_set (performed rr_counting
          (AdvancedMiddleware (counting (True, None)) handler req rr_counting))
        = [(''X-RateLimit-Limit'', ''100''), (''X-RateLimit-Remaining'', ''99'')]"
    by (simp add: Let_def handler_def Sprintf_d_examples)
  from GetRateLimitData_once_unless_failure [OF h5 d5, of handler]
  have f: "ext (AdvancedMiddleware (counting (False, None)) handler req rr_counting) = (1, 1)
   \<and> headers_set (performed rr_counting
          (AdvancedMiddleware (counting (False, None)) handler req rr_counting))
        = [(''X-RateLimit-Retry-After'', ''1000'')]"
    by (simp add: Let_def Sprintf_d_examples)
  from GetRateLimitData_once_unless_failure [OF h6 d6, of handler]
  have g: "ext (AdvancedMiddleware (counting (False, Some rate_limiter_error)) handler req
          rr_counting) = (1, 0)
   \<and> headers_set (performed rr_counting
          (AdvancedMiddleware (counting (False, Some rate_limiter_error)) handler req rr_counting))
        = []"
    by (simp add: Let_def)
  show ?thesis
    using h1 d1 h2 d2 h3 d3 h4 h5 h6 d4 d5 d6 a b c e f g by blast
qed

text \<open>
  C5. Whenever \<^verbatim>\<open>IsAllowed\<close> returns \<^verbatim>\<open>(false, nil)\<close>, \<^verbatim>\<open>AdvancedMiddleware\<close> sets
  the one header \<^verbatim>\<open>X-RateLimit-Retry-After\<close> and then writes status 429; it does not
  call the downstream handler, and \<^verbatim>\<open>X-RateLimit-Limit\<close> and
  \<^verbatim>\<open>X-RateLimit-Remaining\<close> read as they did on entry, whatever the snapshot holds.
\<close>

theorem AdvancedMiddleware_denied_429:
  assumes "IsAllowed rateLimiter r (ext x) = ((False, None), s1)"
    and "GetRateLimitData rateLimiter r s1 = (data, s2)"
  shows "(let x' = AdvancedMiddleware rateLimiter next r x;
              v = Sprintf_d (Milliseconds (RetryAfter data)) in
            performed x x' =
              [Ev_IsAllowed r, Ev_GetRateLimitData r,
               Ev_Header_Set ''X-RateLimit-Retry-After'' v, Ev_WriteHeader 429]
          \<and> statuses_written (performed x x') = [429]
          \<and> calls_ServeHTTP (performed x x') = 0
          \<and> headers_set (performed x x') = [(''X-RateLimit-Retry-After'', v)]
          \<and> HeaderMap (rw x') = (HeaderMap (rw x))(''X-Ratelimit-Retry-After'' \<mapsto> [v])
          \<and> Header_Get ''X-RateLimit-Retry-After'' (HeaderMap (rw x')) = v
          \<and> Header_Get ''X-RateLimit-Limit'' (HeaderMap (rw x'))
              = Header_Get ''X-RateLimit-Limit'' (HeaderMap (rw x))
          \<and> Header_Get ''X-RateLimit-Remaining'' (HeaderMap (rw x'))
              = Header_Get ''X-RateLimit-Remaining'' (HeaderMap (rw x))
          \<and> committed (rw x') =
              (case committed (rw x) of
                 None \<Rightarrow> Some (429, (HeaderMap (rw x))(''X-Ratelimit-Retry-After'' \<mapsto> [v]))
               | Some c \<Rightarrow> Some c)
          \<and> Body (rw x') = Body (rw x)
          \<and> ext x' = s2)"
  by (simp add: AdvancedMiddleware_deny [OF assms] performed_append calls_ServeHTTP_def
      committed_WriteHeader HeaderMap_WriteHeader Body_WriteHeader
      header_defs Let_def split: option.splits)

text \<open>
  The blocking test of middleware_advanced_test.go, whose snapshot has a limit of 100:
  the recorder holds 429 and the retry header only.
\<close>

theorem AdvancedMiddleware_denied_429_witness:
  "IsAllowed advanced_blocking req (ext rr) = ((False, None), ())
   \<and> GetRateLimitData advanced_blocking req ()
        = (\<lparr>Remaining = 0, Limit = 100, RetryAfter = Second\<rparr>, ())
   \<and> performed rr (AdvancedMiddleware advanced_blocking handler req rr) =
        [Ev_IsAllowed req, Ev_GetRateLimitData req,
         Ev_Header_Set ''X-RateLimit-Retry-After'' ''1000'', Ev_WriteHeader 429]
   \<and> headers_set (performed rr (AdvancedMiddleware advanced_blocking handler req rr))
        = [(''X-RateLimit-Retry-After'', ''1000'')]
   \<and> calls_ServeHTTP (performed rr (AdvancedMiddleware advanced_blocking handler req rr)) = 0
   \<and> committed (rw (AdvancedMiddleware advanced_blocking handler req rr))
        = Some (429, [''X-Ratelimit-Retry-After'' \<mapsto> [''1000'']])
   \<and> Header_Get ''X-RateLimit-Limit''
        (HeaderMap (rw (AdvancedMiddleware advanced_blocking handler req rr))) = []
   \<and> Header_Get ''X-RateLimit-Remaining''
        (HeaderMap (rw (AdvancedMiddleware advanced_blocking handler req rr))) = []
   \<and> Body (rw (AdvancedMiddleware advanced_blocking handler req rr)) = []"
proof -
  have h: "IsAllowed advanced_blocking req (ext rr) = ((False, None), ())"
    and d: "GetRateLimitData advanced_blocking req ()
        = (\<lparr>Remaining = 0, Limit = 100, RetryAfter = Second\<rparr>, ())"
    by (simp_all add: advanced_blocking_def mock_defs)
  from AdvancedMiddleware_denied_429 [OF h d, of handler]
  have "performed rr (AdvancedMiddleware advanced_blocking handler req rr) =
        [Ev_IsAllowed req, Ev_GetRateLimitData req,
         Ev_Header_Set ''X-RateLimit-Retry-After'' ''1000'', Ev_WriteHeader 429]
   \<and> headers_set (performed rr (AdvancedMiddleware advanced_blocking handler req rr))
        = [(''X-RateLimit-Retry-After'', ''1000'')]
   \<and> calls_ServeHTTP (performed rr (AdvancedMiddleware advanced_blocking handler req rr)) = 0
   \<and> committed (rw (AdvancedMiddleware advanced_blocking handler req rr))
        = Some (429, [''X-Ratelimit-Retry-After'' \<mapsto> [''1000'']])
   \<and> Header_Get ''X-RateLimit-Limit''
        (HeaderMap (rw (AdvancedMiddleware advanced_blocking handler req rr))) = []
   \<and> Header_Get ''X-RateLimit-Remaining''
        (HeaderMap (rw (AdvancedMiddleware advanced_blocking handler req rr))) = []
   \<and> Body (rw (AdvancedMiddleware advanced_blocking handler req rr)) = []"
    by (simp add: Let_def rr_simps Sprintf_d_examples header_defs calls_ServeHTTP_def)
  with h d show ?thesis by blast
qed

text \<open>
  C6. On the deny path the value of \<^verbatim>\<open>X-RateLimit-Retry-After\<close> is the number of
  whole milliseconds in the snapshot's \<^verbatim>\<open>RetryAfter\<close>, a count of nanoseconds \<open>d\<close>,
  rounded towards zero, written in base 10: an optional minus sign and decimal digits,
  nothing else, and read back as a decimal integer it is that number.
\<close>

theorem Retry_After_whole_milliseconds:
  assumes "IsAllowed rateLimiter r (ext x) = ((False, None), s1)"
    and "GetRateLimitData rateLimiter r s1 = (data, s2)"
  shows "(let x' = AdvancedMiddleware rateLimiter next r x;
              v = Header_Get ''X-RateLimit-Retry-After'' (HeaderMap (rw x'));
              d = sint (RetryAfter data);
              ms = sgn d * (\<bar>d\<bar> div 1000000) in
            headers_set (performed x x') = [(''X-RateLimit-Retry-After'', v)]
          \<and> v = fmt_d ms
          \<and> is_signed_decimal v
          \<and> int_of_decimal v = ms)"
  by (simp add: AdvancedMiddleware_deny [OF assms] performed_append HeaderMap_WriteHeader
      header_defs Let_def Sprintf_d_def
      Milliseconds_truncates fmt_d_decimal)

text \<open>
  One second gives \<^verbatim>\<open>1000\<close>, as the blocking test of middleware_advanced_test.go
  expects; 1999999 nanoseconds give \<^verbatim>\<open>1\<close>, and -1999999 nanoseconds \<^verbatim>\<open>-1\<close>.
\<close>

theorem Retry_After_whole_milliseconds_witness:
  "IsAllowed advanced_blocking req (ext rr) = ((False, None), ())
   \<and> GetRateLimitData advanced_blocking req ()
        = (\<lparr>Remaining = 0, Limit = 100, RetryAfter = Second\<rparr>, ())
   \<and> IsAllowed (advanced_blocking_with 1999999) req (ext rr) = ((False, None), ())
   \<and> GetRateLimitData (advanced_blocking_with 1999999) req ()
        = (\<lparr>Remaining = 0, Limit = 100, RetryAfter = 1999999\<rparr>, ())
   \<and> IsAllowed (advanced_blocking_with (- 1999999)) req (ext rr) = ((False, None), ())
   \<and> GetRateLimitData (advanced_blocking_with (- 1999999)) req ()
        = (\<lparr>Remaining = 0, Limit = 100, RetryAfter = - 1999999\<rparr>, ())
   \<and> Header_Get ''X-RateLimit-Retry-After''
        (HeaderMap (rw (AdvancedMiddleware advanced_blocking handler req rr))) = ''1000''
   \<and> Header_Get ''X-RateLimit-Retry-After''
        (HeaderMap (rw (AdvancedMiddleware (advanced_blocking_with 1999999) handler req rr)))
        = ''1''
   \<and> Header_Get ''X-RateLimit-Retry-After''
        (HeaderMap (rw (AdvancedMiddleware (advanced_blocking_with (- 1999999)) handler req rr)))
        = ''-1''"
proof -
  have h1: "IsAllowed advanced_blocking req (ext rr) = ((False, None), ())"
    and d1: "GetRateLimitData advanced_blocking req ()
        = (\<lparr>Remaining = 0, Limit = 100, RetryAfter = Second\<rparr>, ())"
    and h2: "IsAllowed (advanced_blocking_with 1999999) req (ext rr) = ((False, None), ())"
    and d2: "GetRateLimitData (advanced_blocking_with 1999999) req ()
        = (\<lparr>Remaining = 0, Limit = 100, RetryAfter = 1999999\<rparr>, ())"
    and h3: "IsAllowed (advanced_blocking_with (- 1999999)) req (ext rr) = ((False, None), ())"
    and d3: "GetRateLimitData (advanced_blocking_with (- 1999999)) req ()
        = (\<lparr>Remaining = 0, Limit = 100, RetryAfter = - 1999999\<rparr>, ())"
    by (simp_all add: advanced_blocking_def advanced_blocking_with_def mock_defs)
  from Retry_After_whole_milliseconds [OF h1 d1, of handler]
  have a: "Header_Get ''X-RateLimit-Retry-After''
        (HeaderMap (rw (AdvancedMiddleware advanced_blocking handler req rr))) = ''1000''"
    by (simp add: Let_def Second_def fmt_d_def digits.simps)
  from Retry_After_whole_milliseconds [OF h2 d2, of handler]
  have b: "Header_Get ''X-RateLimit-Retry-After''
        (HeaderMap (rw (AdvancedMiddleware (advanced_blocking_with 1999999) handler req rr)))
        = ''1''"
    by (simp add: Let_def fmt_d_def digits.simps)
  from Retry_After_whole_milliseconds [OF h3 d3, of handler]
  have c: "Header_Get ''X-RateLimit-Retry-After''
        (HeaderMap (rw (AdvancedMiddleware (advanced_blocking_with (- 1999999)) handler req rr)))
        = ''-1''"
    by (simp add: Let_def fmt_d_def digits.simps)
  show ?thesis
    using h1 d1 h2 d2 h3 d3 a b c by blast
qed

text \<open>
  C7. Whenever \<^verbatim>\<open>IsAllowed\<close> returns \<^verbatim>\<open>(true, nil)\<close> and the snapshot holds limit
  \<open>L\<close> and remaining \<open>R\<close>, \<^verbatim>\<open>AdvancedMiddleware\<close> sets \<^verbatim>\<open>X-RateLimit-Limit\<close> to
  \<open>L\<close> in base 10 and \<^verbatim>\<open>X-RateLimit-Remaining\<close> to \<open>R\<close> in base 10, sets no other
  header and writes no status, then calls the downstream handler exactly once with the
  response writer holding the two headers; the final response writer is the one the
  downstream handler leaves. \<^verbatim>\<open>X-RateLimit-Retry-After\<close> reads as it did on entry.
\<close>

theorem AdvancedMiddleware_allowed_headers:
  assumes "IsAllowed rateLimiter r (ext x) = ((True, None), s1)"
    and "GetRateLimitData rateLimiter r s1 = (data, s2)"
  shows "(let x' = AdvancedMiddleware rateLimiter next r x;
              l = fmt_d (sint (Limit data));
              m = fmt_d (sint (Remaining data));
              w = (rw x)\<lparr>HeaderMap := (HeaderMap (rw x))
                     (''X-Ratelimit-Limit'' \<mapsto> [l], ''X-Ratelimit-Remaining'' \<mapsto> [m])\<rparr> in
            performed x x' =
              [Ev_IsAllowed r, Ev_GetRateLimitData r,
               Ev_Header_Set ''X-RateLimit-Limit'' l,
               Ev_Header_Set ''X-RateLimit-Remaining'' m,
               Ev_ServeHTTP w r]
          \<and> headers_set (performed x x') =
              [(''X-RateLimit-Limit'', l), (''X-RateLimit-Remaining'', m)]
          \<and> statuses_written (performed x x') = []
          \<and> calls_ServeHTTP (performed x x') = 1
          \<and> Header_Get ''X-RateLimit-Limit'' (HeaderMap w) = l
          \<and> Header_Get ''X-RateLimit-Remaining'' (HeaderMap w) = m
          \<and> Header_Get ''X-RateLimit-Retry-After'' (HeaderMap w)
              = Header_Get ''X-RateLimit-Retry-After'' (HeaderMap (rw x))
          \<and> is_signed_decimal l \<and> int_of_decimal l = sint (Limit data)
          \<and> is_signed_decimal m \<and> int_of_decimal m = sint (Remaining data)
          \<and> rw x' = fst (next r (w, s2))
          \<and> ext x' = snd (next r (w, s2)))"
  by (simp add: AdvancedMiddleware_allow [OF assms refl] performed_append
      calls_ServeHTTP_def header_defs
      Let_def Sprintf_d_def fmt_d_decimal)

text \<open>
  The header test of middleware_advanced_test.go: limit 100, remaining 99, and a
  downstream handler that writes 200.
\<close>

theorem AdvancedMiddleware_allowed_headers_witness:
  "IsAllowed advanced_allowing req (ext rr) = ((True, None), ())
   \<and> GetRateLimitData advanced_allowing req ()
        = (\<lparr>Remaining = 99, Limit = 100, RetryAfter = 0\<rparr>, ())
   \<and> headers_set (performed rr (AdvancedMiddleware advanced_allowing handler req rr))
        = [(''X-RateLimit-Limit'', ''100''), (''X-RateLimit-Remaining'', ''99'')]
   \<and> calls_ServeHTTP (performed rr (AdvancedMiddleware advanced_allowing handler req rr)) = 1
   \<and> Header_Get ''X-RateLimit-Limit''
        (HeaderMap (rw (AdvancedMiddleware advanced_allowing handler req rr))) = ''100''
   \<and> Header_Get ''X-RateLimit-Remaining''
        (HeaderMap (rw (AdvancedMiddleware advanced_allowing handler req rr))) = ''99''
   \<and> Header_Get ''X-RateLimit-Retry-After''
        (HeaderMap (rw (AdvancedMiddleware advanced_allowing handler req rr))) = []
   \<and> committed (rw (AdvancedMiddleware advanced_allowing handler req rr)) =
        Some (200, [''X-Ratelimit-Limit'' \<mapsto> [''100''], ''X-Ratelimit-Remaining'' \<mapsto> [''99'']])"
proof -
  have h: "IsAllowed advanced_allowing req (ext rr) = ((True, None), ())"
    and d: "GetRateLimitData advanced_allowing req ()
        = (\<lparr>Remaining = 99, Limit = 100, RetryAfter = 0\<rparr>, ())"
    by (simp_all add: advanced_allowing_def mock_defs)
  have f: "fmt_d 100 = ''100''" "fmt_d 99 = ''99''"
    by (simp_all add: fmt_d_def digits.simps)
  from AdvancedMiddleware_allowed_headers [OF h d, of handler]
  have "headers_set (performed rr (AdvancedMiddleware advanced_allowing handler req rr))
        = [(''X-RateLimit-Limit'', ''100''), (''X-RateLimit-Remaining'', ''99'')]
   \<and> calls_ServeHTTP (performed rr (AdvancedMiddleware advanced_allowing handler req rr)) = 1
   \<and> Header_Get ''X-RateLimit-Limit''
        (HeaderMap (rw (AdvancedMiddleware advanced_allowing handler req rr))) = ''100''
   \<and> Header_Get ''X-RateLimit-Remaining''
        (HeaderMap (rw (AdvancedMiddleware advanced_allowing handler req rr))) = ''99''
   \<and> Header_Get ''X-RateLimit-Retry-After''
        (HeaderMap (rw (AdvancedMiddleware advanced_allowing handler req rr))) = []
   \<and> committed (rw (AdvancedMiddleware advanced_allowing handler req rr)) =
        Some (200, [''X-Ratelimit-Limit'' \<mapsto> [''100''], ''X-Ratelimit-Remaining'' \<mapsto> [''99'']])"
    by (simp add: Let_def rr_simps f header_defs calls_ServeHTTP_def handler_def
        NewRecorder_def
        rw_WriteHeader_def StatusOK_def)
  with h d show ?thesis by blast
qed



section \<open>Snapshots that make no sense\<close>




end
